theory Spec2Isabelle
  imports Complex_Main "HOL-Library.Word"
begin

unbundle bit_operations_syntax

section \<open>Alarm state engine (alarm\_logic.py)\<close>

text \<open>
  The engine keeps four module-level globals and reads the wall clock with
  \<^verbatim>\<open>time.time()\<close>. The globals are a record that \<open>build_rtu_registers\<close> takes and
  returns; every call site of \<^verbatim>\<open>time.time()\<close> gets a reading of its own, so that nothing is
  assumed about how the clock moves between two reads of one cycle. Python's unbounded
  integers are \<open>int\<close>; timestamps (Python floats) are \<open>real\<close>, of which the engine uses only
  a difference and a comparison with 60.
\<close>

record SensorState =
  belt_level :: int
  mid_bearing_level :: int
  tail_bearing_level :: int
  horsehead_level :: int
  crank_left_level :: int
  crank_right_level :: int
  line_level :: int
  elec_phase_a_ok :: bool
  elec_phase_b_ok :: bool
  elec_phase_c_ok :: bool
  loadpos_ok :: bool

record alarm_globals =
  g_101_trigger_start :: "real option"
  g_101_current :: "int option"
  g_101_changed_at :: "real option"
  g_43501_latched :: "int option"

text \<open>The readings of \<^verbatim>\<open>time.time()\<close>, one per call site, in source order of the lines
  125 (external sync), 98 (latch), 216 (timer start), 218 (level-3 elapsed), 263 (delayed clear).\<close>

record clock =
  t_sync :: real
  t_latch :: real
  t_trigger :: real
  t_elapsed :: real
  t_clear :: real

type_synonym registers = "int \<rightharpoonup> int"

definition globals_init :: alarm_globals where
  "globals_init = \<lparr>g_101_trigger_start = None, g_101_current = None,
     g_101_changed_at = None, g_43501_latched = None\<rparr>"

definition SensorState_default :: SensorState where
  "SensorState_default = \<lparr>belt_level = 0, mid_bearing_level = 0, tail_bearing_level = 0,
     horsehead_level = 0, crank_left_level = 0, crank_right_level = 0, line_level = 0,
     elec_phase_a_ok = True, elec_phase_b_ok = True, elec_phase_c_ok = True,
     loadpos_ok = True\<rparr>"

definition any_sensor_reach_level :: "SensorState \<Rightarrow> int \<Rightarrow> bool" where
  "any_sensor_reach_level state level =
     list_ex (\<lambda>name. name state \<ge> level)
       [crank_left_level, crank_right_level, tail_bearing_level,
        mid_bearing_level, horsehead_level, belt_level]"

definition any_vibration_reach_level :: "SensorState \<Rightarrow> int \<Rightarrow> bool" where
  "any_vibration_reach_level state level =
     list_ex (\<lambda>name. name state \<ge> level)
       [crank_left_level, crank_right_level, tail_bearing_level, mid_bearing_level]"

definition electrical_missing_count :: "SensorState \<Rightarrow> int" where
  "electrical_missing_count state =
     sum_list [of_bool (\<not> elec_phase_a_ok state), of_bool (\<not> elec_phase_b_ok state),
               of_bool (\<not> elec_phase_c_ok state)]"

definition electrical_missing_at_least_one :: "SensorState \<Rightarrow> bool" where
  "electrical_missing_at_least_one state = (electrical_missing_count state \<ge> 1)"

definition electrical_all_ok :: "SensorState \<Rightarrow> bool" where
  "electrical_all_ok state = (electrical_missing_count state = 0)"

definition loadpos_abnormal :: "SensorState \<Rightarrow> bool" where
  "loadpos_abnormal state = (\<not> loadpos_ok state)"

definition loadpos_normal :: "SensorState \<Rightarrow> bool" where
  "loadpos_normal state = loadpos_ok state"

definition clamp :: "int \<Rightarrow> int \<Rightarrow> int" where
  "clamp v max_val = max 0 (min v max_val)"

text \<open>Step 0 of \<open>build_rtu_registers\<close> (lines 121-128): an observed value of register 101
  that differs from the remembered one replaces it and restarts the change timestamp; an
  observed run-code 81 also clears the level-3 timer.\<close>

definition sync_101 :: "alarm_globals \<Rightarrow> int option \<Rightarrow> clock \<Rightarrow> alarm_globals" where
  "sync_101 g current_rtu_101 clk =
     (case current_rtu_101 of
        None \<Rightarrow> g
      | Some c \<Rightarrow>
          if g_101_current g \<noteq> Some c then
            (let g1 = g\<lparr>g_101_current := Some c, g_101_changed_at := Some (t_sync clk)\<rparr>
             in if c = 81 then g1\<lparr>g_101_trigger_start := None\<rparr> else g1)
          else g)"

text \<open>\<open>_update_43501_latched\<close> (lines 94-104): returns the globals with the latch updated;
  the value the Python function returns is the new \<open>g_43501_latched\<close>.\<close>

definition update_43501_latched :: "alarm_globals \<Rightarrow> clock \<Rightarrow> alarm_globals" where
  "update_43501_latched g clk =
     (if g_101_current g = Some 81 \<or> g_101_current g = Some 82 then
        (case g_101_changed_at g of
           None \<Rightarrow> g
         | Some changed_at \<Rightarrow>
             (let elapsed = t_latch clk - changed_at
              in if elapsed \<ge> 60 then
                   (if g_101_current g = Some 82 then g\<lparr>g_43501_latched := Some 1\<rparr>
                    else if g_101_current g = Some 81 then g\<lparr>g_43501_latched := Some 0\<rparr>
                    else g)
                 else g))
      else g)"

text \<open>Step 2 (lines 143-160): the electrical and load-position levels, the maximum of
  all levels clamped to 3 (lines 148-154), and the overall alarm level after the downgrade
  to 2 (lines 157-160).\<close>

definition electrical_level :: "SensorState \<Rightarrow> int" where
  "electrical_level state =
     (let missing_count = electrical_missing_count state
      in if missing_count \<le> 0 then 0 else if missing_count = 1 then 1 else 2)"

definition loadpos_level :: "SensorState \<Rightarrow> int" where
  "loadpos_level state = (if loadpos_abnormal state then 1 else 0)"

definition aggregate_level :: "SensorState \<Rightarrow> int" where
  "aggregate_level state =
     (let overall = foldl max 0
            [belt_level state, mid_bearing_level state, tail_bearing_level state,
             horsehead_level state, crank_left_level state, crank_right_level state,
             line_level state, electrical_level state, loadpos_level state]
      in if overall > 3 then 3 else overall)"

definition overall_alarm_level :: "SensorState \<Rightarrow> int" where
  "overall_alarm_level state =
     (let overall = aggregate_level state;
          any_sensor_lvl3 = any_sensor_reach_level state 3;
          cond_lvl3_but_normal =
            (any_sensor_lvl3 \<and> electrical_all_ok state \<and> loadpos_normal state)
      in if cond_lvl3_but_normal \<and> overall \<ge> 3 then 2 else overall)"

text \<open>The fault type of register 3504 (lines 169-182).\<close>

definition fault_type :: "SensorState \<Rightarrow> int" where
  "fault_type state =
     (let any_vib_lvl3 = any_vibration_reach_level state 3;
          belt_lvl3 = (belt_level state \<ge> 3);
          elec_bad = electrical_missing_at_least_one state
      in if belt_lvl3 \<and> elec_bad then 1
         else if any_vib_lvl3 \<and> electrical_all_ok state then 3
         else if belt_lvl3 \<and> electrical_all_ok state then 3
         else if any_vib_lvl3 \<and> elec_bad then 2
         else 0)"

text \<open>Step 3 (lines 165-202): the status registers 3502 to 3520.\<close>

definition status_registers :: "SensorState \<Rightarrow> registers" where
  "status_registers state =
     Map.empty
       (3502 \<mapsto> clamp (overall_alarm_level state) 3,
        3503 \<mapsto> 0,
        3504 \<mapsto> fault_type state,
        3505 \<mapsto> (if crank_left_level state \<ge> 1 then 1 else 0),
        3506 \<mapsto> (if crank_right_level state \<ge> 1 then 1 else 0),
        3507 \<mapsto> (if tail_bearing_level state \<ge> 1 then 1 else 0),
        3508 \<mapsto> (if mid_bearing_level state \<ge> 1 then 1 else 0),
        3509 \<mapsto> (if horsehead_level state \<ge> 1 then 1 else 0),
        3510 \<mapsto> (if belt_level state \<ge> 1 then 1 else 0),
        3511 \<mapsto> (if electrical_missing_count state \<ge> 1 then 1 else 0),
        3512 \<mapsto> (if loadpos_abnormal state then 1 else 0),
        3513 \<mapsto> clamp (crank_left_level state) 3,
        3514 \<mapsto> clamp (crank_right_level state) 3,
        3515 \<mapsto> clamp (tail_bearing_level state) 3,
        3516 \<mapsto> clamp (mid_bearing_level state) 3,
        3517 \<mapsto> clamp (horsehead_level state) 3,
        3518 \<mapsto> clamp (belt_level state) 3,
        3519 \<mapsto> clamp (electrical_level state) 2,
        3520 \<mapsto> (if loadpos_abnormal state then 1 else 0))"

text \<open>Step 4 (lines 209-256): the writes of registers 101 and 3501, and the level-3 timer.
  \<^verbatim>\<open>registers.get(3502, 0)\<close> is the lookup with default 0; \<^verbatim>\<open>del registers[101]\<close> removes
  the key.\<close>

definition stop_run_control ::
  "alarm_globals \<Rightarrow> clock \<Rightarrow> int \<Rightarrow> registers \<Rightarrow> registers \<times> alarm_globals" where
  "stop_run_control g clk overall registers =
     (let is_level_3_alarm = ((case registers 3502 of None \<Rightarrow> 0 | Some v \<Rightarrow> v) = 3);
          is_stopped_state = (g_101_current g = Some 82)
      in if is_level_3_alarm then
           (let start = (case g_101_trigger_start g of
                           None \<Rightarrow> t_trigger clk
                         | Some t \<Rightarrow> t);
                g1 = g\<lparr>g_101_trigger_start := Some start\<rparr>;
                elapsed_l3 = t_elapsed clk - start;
                r1 = (if \<not> is_stopped_state then registers(101 \<mapsto> 82) else registers);
                r2 = (if elapsed_l3 \<ge> 60 then r1(3501 \<mapsto> 1) else r1)
            in (r2, g1))
         else
           (let g1 = g\<lparr>g_101_trigger_start := None\<rparr>
            in if is_stopped_state then
                 (let r1 = registers(3501 \<mapsto> 1);
                      r2 = (if 101 \<in> dom r1 then r1(101 := None) else r1)
                  in (r2, g1))
               else if overall < 2 then (registers(3501 \<mapsto> 0), g1)
               else (registers, g1)))"

text \<open>Step 5 (lines 261-264): the delayed write of 43501 = 0.\<close>

definition delayed_43501 :: "alarm_globals \<Rightarrow> clock \<Rightarrow> int option \<Rightarrow> registers \<Rightarrow> registers" where
  "delayed_43501 g clk latched_43501 registers =
     (if latched_43501 = Some 0 then
        (case g_101_changed_at g of
           None \<Rightarrow> registers
         | Some changed_at \<Rightarrow>
             if g_101_current g = Some 81 \<and> t_clear clk - changed_at \<ge> 60
             then registers(43501 \<mapsto> 0) else registers)
      else registers)"

text \<open>\<open>build_rtu_registers\<close> (lines 109-266). The result is the write set and the
  globals after the call.\<close>

definition build_rtu_registers ::
  "alarm_globals \<Rightarrow> SensorState \<Rightarrow> int option \<Rightarrow> clock \<Rightarrow> registers \<times> alarm_globals" where
  "build_rtu_registers g state current_rtu_101 clk =
     (let g0 = sync_101 g current_rtu_101 clk;
          g1 = update_43501_latched g0 clk;
          latched_43501 = g_43501_latched g1
      in if latched_43501 = Some 1 then (Map.empty(43501 \<mapsto> 1), g1)
         else
           (let registers = status_registers state;
                (registers, g2) = stop_run_control g1 clk (overall_alarm_level state) registers
            in (delayed_43501 g2 clk latched_43501 registers, g2)))"

text \<open>Two values of one cycle that the statements below name: the value of register 101
  the engine remembers once step 0 has run (the \<open>_g_101_current\<close> that line 210 reads), and
  the latch value of line 133.\<close>

definition remembered_101 :: "alarm_globals \<Rightarrow> int option \<Rightarrow> clock \<Rightarrow> int option" where
  "remembered_101 g current_rtu_101 clk = g_101_current (sync_101 g current_rtu_101 clk)"

definition latched_43501 :: "alarm_globals \<Rightarrow> int option \<Rightarrow> clock \<Rightarrow> int option" where
  "latched_43501 g current_rtu_101 clk =
     g_43501_latched (update_43501_latched (sync_101 g current_rtu_101 clk) clk)"

text \<open>A run of evaluation cycles: each cycle is a sensor snapshot, the observed value
  of register 101 (or none) and the clock readings of that cycle; the globals persist
  from one cycle to the next. The result lists the write set of every cycle.\<close>

type_synonym cycle = "SensorState \<times> int option \<times> clock"

fun run_cycles :: "alarm_globals \<Rightarrow> cycle list \<Rightarrow> registers list \<times> alarm_globals" where
  "run_cycles g [] = ([], g)"
| "run_cycles g ((state, cur, clk) # cs) =
     (let (r, g1) = build_rtu_registers g state cur clk;
          (rs, g2) = run_cycles g1 cs
      in (r # rs, g2))"

text \<open>Inputs for the concrete evaluations below: a clock whose reads of one cycle all
  return \<open>t\<close>; the globals after the engine, started at time 0 from the initial globals,
  has seen a level-3 alarm and then, at time 30, the stop-code on register 101; a snapshot
  with a belt alarm of level 3 and phase A down (the scenario of the module's own demo);
  snapshots with a single location at level 3 and everything else in order.\<close>

definition clock_at :: "real \<Rightarrow> clock" where
  "clock_at t = \<lparr>t_sync = t, t_latch = t, t_trigger = t, t_elapsed = t, t_clear = t\<rparr>"

definition stopped_at_30 :: alarm_globals where
  "stopped_at_30 = \<lparr>g_101_trigger_start = Some 0, g_101_current = Some 82,
     g_101_changed_at = Some 30, g_43501_latched = None\<rparr>"

definition belt_fault :: SensorState where
  "belt_fault = SensorState_default\<lparr>belt_level := 3, elec_phase_a_ok := False\<rparr>"

definition crank_left_alarm :: SensorState where
  "crank_left_alarm = SensorState_default\<lparr>crank_left_level := 3\<rparr>"

definition horsehead_alarm :: SensorState where
  "horsehead_alarm = SensorState_default\<lparr>horsehead_level := 3\<rparr>"

definition line_alarm :: SensorState where
  "line_alarm = SensorState_default\<lparr>line_level := 3\<rparr>"

section \<open>Serial transport (vibration\_monitor\_1.py, class ModbusRtuClient)\<close>

text \<open>
  Python \<^verbatim>\<open>bytes\<close> are lists of 8-bit words. The exceptions the two modelled modules raise
  are values: \<open>ValueError\<close> (\<^verbatim>\<open>bytes([n])\<close> with \<open>n\<close> outside 0..255, too many values to
  unpack, a negative \<^verbatim>\<open>maxlen\<close>), \<open>StructError\<close> (\<^verbatim>\<open>struct.pack\<close> or
  \<^verbatim>\<open>struct.unpack\<close> on a value or length that does not fit), \<open>ZeroDivisionError\<close>,
  \<open>TimeoutError\<close> and \<open>IOError\<close>. The three \<^verbatim>\<open>raise IOError(...)\<close> of \<open>_send_and_recv\<close>
  differ in their message only; the model keeps them apart by the place that raises.
\<close>

type_synonym byte = "8 word"

datatype io_failure =
    AddressMismatch
  | ExceptionResponse byte "byte list"
  | CrcFailed

datatype py_exception =
    ValueError
  | StructError
  | ZeroDivisionError
  | TimeoutError
  | IOError io_failure

text \<open>The names of the specification's error taxonomy for the raise sites of
  \<open>_send_and_recv\<close>: lines 78 and 89, line 82, line 85 and line 95.\<close>

abbreviation Timeout :: py_exception where
  "Timeout \<equiv> TimeoutError"

abbreviation ProtocolMismatch :: py_exception where
  "ProtocolMismatch \<equiv> IOError AddressMismatch"

abbreviation RemoteException :: "byte \<Rightarrow> byte list \<Rightarrow> py_exception" where
  "RemoteException func exc_code \<equiv> IOError (ExceptionResponse func exc_code)"

abbreviation ChecksumError :: py_exception where
  "ChecksumError \<equiv> IOError CrcFailed"

text \<open>\<open>_crc16\<close> (lines 52-63) on Python's unbounded integers: the inner loop body, the
  eight rounds for one byte, and the loop over the data with the final mask.\<close>

definition crc16_shift :: "int \<Rightarrow> int" where
  "crc16_shift crc =
     (if crc AND 0x0001 \<noteq> 0 then drop_bit 1 crc XOR 0xA001 else drop_bit 1 crc)"

definition crc16_step :: "int \<Rightarrow> byte \<Rightarrow> int" where
  "crc16_step crc ch = fold (\<lambda>_. crc16_shift) [0..<8] (crc XOR uint ch)"

definition crc16 :: "byte list \<Rightarrow> int" where
  "crc16 data = foldl crc16_step 0xFFFF data AND 0xFFFF"

text \<open>\<^verbatim>\<open>bytes([n])\<close>, \<^verbatim>\<open>struct.pack('<H', v)\<close> and \<^verbatim>\<open>struct.unpack('<H', b)[0]\<close>.\<close>

definition bytes1 :: "int \<Rightarrow> py_exception + byte list" where
  "bytes1 n = (if 0 \<le> n \<and> n < 256 then Inr [word_of_int n] else Inl ValueError)"

definition pack_H_le :: "int \<Rightarrow> py_exception + byte list" where
  "pack_H_le v =
     (if 0 \<le> v \<and> v \<le> 0xFFFF then Inr [word_of_int (v mod 256), word_of_int (v div 256)]
      else Inl StructError)"

definition unpack_H_le :: "byte list \<Rightarrow> py_exception + int" where
  "unpack_H_le b =
     (case b of [lo, hi] \<Rightarrow> Inr (uint lo + 256 * uint hi) | _ \<Rightarrow> Inl StructError)"

text \<open>
  The serial connection (pyserial's \<^verbatim>\<open>serial.Serial\<close>, outside the repository) as the state
  its documented operations act on: the bytes received and not yet read, the bytes written
  and not yet transmitted, and the bytes transmitted on the line so far.
  \<^verbatim>\<open>reset_input_buffer()\<close> discards the input buffer, \<^verbatim>\<open>write(data)\<close> queues the data for
  output, \<^verbatim>\<open>flush()\<close> waits until all queued output is transmitted, \<^verbatim>\<open>read(n)\<close> returns
  at most \<open>n\<close> bytes. \<open>ser_receive\<close> is the arrival of the bytes the bus delivers to this
  exchange before its read timeouts expire.
\<close>

record serial_port =
  is_open :: bool
  in_buf :: "byte list"
  out_buf :: "byte list"
  line_tx :: "byte list"

definition ser_open :: "serial_port \<Rightarrow> serial_port" where
  "ser_open ser = ser\<lparr>is_open := True\<rparr>"

definition reset_input_buffer :: "serial_port \<Rightarrow> serial_port" where
  "reset_input_buffer ser = ser\<lparr>in_buf := []\<rparr>"

definition ser_write :: "serial_port \<Rightarrow> byte list \<Rightarrow> serial_port" where
  "ser_write ser data = ser\<lparr>out_buf := out_buf ser @ data\<rparr>"

definition ser_flush :: "serial_port \<Rightarrow> serial_port" where
  "ser_flush ser = ser\<lparr>line_tx := line_tx ser @ out_buf ser, out_buf := []\<rparr>"

definition ser_receive :: "serial_port \<Rightarrow> byte list \<Rightarrow> serial_port" where
  "ser_receive ser arriving = ser\<lparr>in_buf := in_buf ser @ arriving\<rparr>"

definition ser_read :: "serial_port \<Rightarrow> nat \<Rightarrow> byte list \<times> serial_port" where
  "ser_read ser n = (take n (in_buf ser), ser\<lparr>in_buf := drop n (in_buf ser)\<rparr>)"

text \<open>Lines 70-71: the request frame, slave id, PDU and little-endian CRC.\<close>

definition encode_frame :: "int \<Rightarrow> byte list \<Rightarrow> py_exception + byte list" where
  "encode_frame unit_id pdu =
     (case bytes1 unit_id of
        Inl e \<Rightarrow> Inl e
      | Inr uid \<Rightarrow>
          (let crc = crc16 (uid @ pdu)
           in case pack_H_le crc of
                Inl e \<Rightarrow> Inl e
              | Inr trailer \<Rightarrow> Inr (uid @ pdu @ trailer)))"

text \<open>Lines 72-74: the input buffer is reset, the frame written, the output flushed.\<close>

definition send_frame :: "serial_port \<Rightarrow> byte list \<Rightarrow> serial_port" where
  "send_frame ser frame =
     (let ser = reset_input_buffer ser;
          ser = ser_write ser frame;
          ser = ser_flush ser
      in ser)"

text \<open>Lines 76-97: reading and validating the response. \<^verbatim>\<open>data_and_crc[:-2]\<close> and
  \<^verbatim>\<open>data_and_crc[-2:]\<close> are \<open>take\<close> and \<open>drop\<close> at the length less two.\<close>

definition recv_response ::
  "int \<Rightarrow> serial_port \<Rightarrow> (py_exception + byte list) \<times> serial_port" where
  "recv_response unit_id ser =
     (let (header, ser) = ser_read ser 3
      in if length header < 3 then (Inl TimeoutError, ser)
         else
           (case header of
              [addr, func, byte_count] \<Rightarrow>
                if uint addr \<noteq> unit_id then (Inl (IOError AddressMismatch), ser)
                else if func AND 0x80 \<noteq> 0 then
                  (let (exc_code, ser) = ser_read ser 1
                   in (Inl (IOError (ExceptionResponse func exc_code)), ser))
                else
                  (let (data_and_crc, ser) = ser_read ser (unat byte_count + 2)
                   in if length data_and_crc < unat byte_count + 2 then (Inl TimeoutError, ser)
                      else
                        (let data = take (length data_and_crc - 2) data_and_crc
                         in case unpack_H_le (drop (length data_and_crc - 2) data_and_crc) of
                              Inl e \<Rightarrow> (Inl e, ser)
                            | Inr crc_recv \<Rightarrow>
                                (let crc_calc = crc16 (header @ data)
                                 in if crc_calc \<noteq> crc_recv then (Inl (IOError CrcFailed), ser)
                                    else (Inr ([func, byte_count] @ data), ser))))
            | _ \<Rightarrow> (Inl ValueError, ser)))"

text \<open>\<open>_send_and_recv\<close> (lines 65-97) for one exchange; \<open>reply\<close> is what arrives after
  the request has been transmitted.\<close>

definition send_and_recv ::
  "int \<Rightarrow> byte list \<Rightarrow> byte list \<Rightarrow> serial_port
     \<Rightarrow> (py_exception + byte list) \<times> serial_port" where
  "send_and_recv unit_id pdu reply ser =
     (let ser = (if \<not> is_open ser then ser_open ser else ser)
      in case encode_frame unit_id pdu of
           Inl e \<Rightarrow> (Inl e, ser)
         | Inr frame \<Rightarrow>
             (let ser = send_frame ser frame;
                  ser = ser_receive ser reply
              in recv_response unit_id ser))"

text \<open>
  The port of one client over its life. \<open>__init__\<close> (lines 34-41) opens the connection,
  on which nothing has been written yet; bytes may already wait for input. From then on
  the client's port is touched by \<open>_send_and_recv\<close> only (and by \<open>close\<close>). A run of
  exchanges gives, for each exchange, its PDU, the bytes that arrive on the input before
  the exchange begins (late or unsolicited bytes) and the bytes that arrive after its
  request has been transmitted.
\<close>

definition opened_port :: "byte list \<Rightarrow> serial_port" where
  "opened_port pending = \<lparr>is_open = True, in_buf = pending, out_buf = [], line_tx = []\<rparr>"



text \<open>Inputs for the concrete evaluations below: an open port with empty buffers, and
  the PDU that reads one holding register at address 0.\<close>

definition idle_port :: serial_port where
  "idle_port = \<lparr>is_open = True, in_buf = [], out_buf = [], line_tx = []\<rparr>"

definition read_one_pdu :: "byte list" where
  "read_one_pdu = [0x03, 0x00, 0x00, 0x00, 0x01]"

section \<open>Threshold classifier (threshold\_analyzer.py)\<close>

text \<open>
  Samples and thresholds are Python floats; the model takes them as \<open>real\<close>, so it does
  not cover NaN, infinities or rounding. The two deques with \<^verbatim>\<open>maxlen\<close> are lists, oldest
  first; \<^verbatim>\<open>deque(maxlen=n)\<close> raises \<open>ValueError\<close> for a negative \<open>n\<close>.
\<close>

record ThresholdConfig =
  level1 :: real
  level2 :: real
  level3 :: real
  window_size :: int
  min_spike_count :: int
  baseline_window :: int
  baseline_tol :: real

record ThresholdResult =
  level :: int
  val :: real
  baseline :: "real option"

record ThresholdAnalyzer =
  config :: ThresholdConfig
  history :: "real list"
  baseline_buf :: "real list"
  baseline_est :: "real option"

definition ThresholdAnalyzer_init :: "ThresholdConfig \<Rightarrow> py_exception + ThresholdAnalyzer" where
  "ThresholdAnalyzer_init cfg =
     (if window_size cfg < 0 \<or> baseline_window cfg < 0 then Inl ValueError
      else Inr \<lparr>config = cfg, history = [], baseline_buf = [], baseline_est = None\<rparr>)"

text \<open>\<^verbatim>\<open>deque.append\<close> with \<^verbatim>\<open>maxlen\<close>: the new item goes to the right end and the left end
  is dropped down to the bound.\<close>

definition deque_append :: "int \<Rightarrow> real list \<Rightarrow> real \<Rightarrow> real list" where
  "deque_append maxlen d v = (let d1 = d @ [v] in drop (length d1 - nat maxlen) d1)"

definition update_baseline :: "ThresholdAnalyzer \<Rightarrow> real \<Rightarrow> py_exception + ThresholdAnalyzer" where
  "update_baseline a v =
     (let buf = deque_append (baseline_window (config a)) (baseline_buf a) v;
          a1 = a\<lparr>baseline_buf := buf\<rparr>
      in if int (length buf) = baseline_window (config a) then
           (if length buf = 0 then Inl ZeroDivisionError
            else Inr (a1\<lparr>baseline_est := Some (sum_list buf / real (length buf))\<rparr>))
         else Inr a1)"

definition is_stable :: "ThresholdAnalyzer \<Rightarrow> py_exception + bool" where
  "is_stable a =
     (let buf = baseline_buf a
      in if int (length buf) < baseline_window (config a) then Inr False
         else if length buf = 0 then Inl ZeroDivisionError
         else
           (let baseline = sum_list buf / real (length buf)
            in if baseline = 0 then Inr False
               else
                 (let spread = Max (set buf) - Min (set buf)
                  in Inr (spread \<le> baseline_tol (config a) * baseline))))"

definition count_over_threshold :: "ThresholdAnalyzer \<Rightarrow> real \<Rightarrow> int" where
  "count_over_threshold a threshold = int (length (filter (\<lambda>v. v \<ge> threshold) (history a)))"

text \<open>Lines 96-111 of \<open>update\<close>: the level chosen from the three counts.\<close>

definition select_level :: "ThresholdAnalyzer \<Rightarrow> int" where
  "select_level a =
     (let c1 = count_over_threshold a (level1 (config a));
          c2 = count_over_threshold a (level2 (config a));
          c3 = count_over_threshold a (level3 (config a))
      in if c3 \<ge> min_spike_count (config a) then 3
         else if c2 \<ge> min_spike_count (config a) then 2
         else if c1 \<ge> min_spike_count (config a) then 1
         else 0)"

text \<open>Lines 116-120 of \<open>update\<close>: the spike-ratio guard on the selected level.
  \<open>_is_stable\<close> is called only when the first two conjuncts of line 116 hold.\<close>

definition ratio_guard :: "ThresholdAnalyzer \<Rightarrow> real \<Rightarrow> int \<Rightarrow> py_exception + int" where
  "ratio_guard a v lvl =
     (if lvl > 0 then
        (case baseline_est a of
           None \<Rightarrow> Inr lvl
         | Some b \<Rightarrow>
             (case is_stable a of
                Inl e \<Rightarrow> Inl e
              | Inr is_st \<Rightarrow>
                  if is_st then
                    (let ratio = (if b \<noteq> 0 then v / b else 0)
                     in if ratio < 1.2 then Inr 0 else Inr lvl)
                  else Inr lvl))
      else Inr lvl)"

text \<open>\<open>ThresholdAnalyzer.update\<close> (lines 89-122): the result and the analyzer after the
  call.\<close>

definition update ::
  "ThresholdAnalyzer \<Rightarrow> real \<Rightarrow> py_exception + ThresholdResult \<times> ThresholdAnalyzer" where
  "update a v =
     (case update_baseline a v of
        Inl e \<Rightarrow> Inl e
      | Inr a1 \<Rightarrow>
          (let a2 = a1\<lparr>history := deque_append (window_size (config a1)) (history a1) v\<rparr>
           in case ratio_guard a2 v (select_level a2) of
                Inl e \<Rightarrow> Inl e
              | Inr lvl \<Rightarrow> Inr (\<lparr>level = lvl, val = v, baseline = baseline_est a2\<rparr>, a2)))"

text \<open>The analyzer after a stream of samples, starting from a given analyzer.\<close>

fun feed :: "ThresholdAnalyzer \<Rightarrow> real list \<Rightarrow> py_exception + ThresholdAnalyzer" where
  "feed a [] = Inr a"
| "feed a (v # vs) = (case update a v of Inl e \<Rightarrow> Inl e | Inr (r, a1) \<Rightarrow> feed a1 vs)"

text \<open>
  The level selection and the stability test in the words of the specification, to
  compare with \<open>select_level\<close> and \<open>_is_stable\<close>: the threshold with index \<open>k\<close>; the
  highest index in 1..3 whose threshold is reached by at least \<open>min_spike_count\<close> values
  of the detection buffer, and 0 if there is none; a baseline window that is full, has a
  non-zero mean and a spread of at most \<open>baseline_tol\<close> times the mean.
\<close>

definition threshold_of :: "ThresholdConfig \<Rightarrow> nat \<Rightarrow> real" where
  "threshold_of cfg k = (if k = 1 then level1 cfg else if k = 2 then level2 cfg else level3 cfg)"

definition spike_count :: "real list \<Rightarrow> real \<Rightarrow> int" where
  "spike_count buf threshold = int (length (filter (\<lambda>v. v \<ge> threshold) buf))"

definition spec_level :: "ThresholdConfig \<Rightarrow> real list \<Rightarrow> int" where
  "spec_level cfg buf =
     int (Max (insert 0
       {k \<in> {1, 2, 3}. spike_count buf (threshold_of cfg k) \<ge> min_spike_count cfg}))"

definition mean :: "real list \<Rightarrow> real" where
  "mean buf = sum_list buf / real (length buf)"

definition spec_stable :: "ThresholdConfig \<Rightarrow> real list \<Rightarrow> bool" where
  "spec_stable cfg buf \<longleftrightarrow>
     int (length buf) = baseline_window cfg \<and> mean buf \<noteq> 0 \<and>
     Max (set buf) - Min (set buf) \<le> baseline_tol cfg * mean buf"

text \<open>Inputs for the concrete evaluations below: a configuration with thresholds 10, 20
  and 30, windows of three samples and a minimum of two spikes; the analyzer of that
  configuration when it is created, and after one, two and three samples of 12.\<close>

definition demo_config :: ThresholdConfig where
  "demo_config = \<lparr>level1 = 10, level2 = 20, level3 = 30, window_size = 3,
     min_spike_count = 2, baseline_window = 3, baseline_tol = 0.1\<rparr>"

definition fresh_analyzer :: ThresholdAnalyzer where
  "fresh_analyzer = \<lparr>config = demo_config, history = [], baseline_buf = [],
     baseline_est = None\<rparr>"

definition after_one_sample :: ThresholdAnalyzer where
  "after_one_sample = \<lparr>config = demo_config, history = [12], baseline_buf = [12],
     baseline_est = None\<rparr>"

definition after_two_samples :: ThresholdAnalyzer where
  "after_two_samples = \<lparr>config = demo_config, history = [12, 12], baseline_buf = [12, 12],
     baseline_est = None\<rparr>"

definition after_three_samples :: ThresholdAnalyzer where
  "after_three_samples = \<lparr>config = demo_config, history = [12, 12, 12],
     baseline_buf = [12, 12, 12], baseline_est = Some 12\<rparr>"

text \<open>Two configurations that the constructor accepts: one with the thresholds in
  descending order, with its analyzer when created and after one and two samples of 12;
  one with a baseline window of length 0, with its analyzer when created.\<close>

definition descending_config :: ThresholdConfig where
  "descending_config = \<lparr>level1 = 30, level2 = 20, level3 = 10, window_size = 3,
     min_spike_count = 2, baseline_window = 3, baseline_tol = 0.1\<rparr>"

definition descending_fresh :: ThresholdAnalyzer where
  "descending_fresh = \<lparr>config = descending_config, history = [], baseline_buf = [],
     baseline_est = None\<rparr>"

definition descending_after_one :: ThresholdAnalyzer where
  "descending_after_one = \<lparr>config = descending_config, history = [12], baseline_buf = [12],
     baseline_est = None\<rparr>"

definition descending_after_two :: ThresholdAnalyzer where
  "descending_after_two = \<lparr>config = descending_config, history = [12, 12],
     baseline_buf = [12, 12], baseline_est = None\<rparr>"

definition zero_baseline_config :: ThresholdConfig where
  "zero_baseline_config = \<lparr>level1 = 10, level2 = 20, level3 = 30, window_size = 3,
     min_spike_count = 2, baseline_window = 0, baseline_tol = 0.1\<rparr>"

definition zero_baseline_fresh :: ThresholdAnalyzer where
  "zero_baseline_fresh = \<lparr>config = zero_baseline_config, history = [], baseline_buf = [],
     baseline_est = None\<rparr>"

section \<open>Properties of the alarm state engine\<close>

lemma foldl_max_ge: "(a::int) \<le> foldl max a xs"
proof (induction xs arbitrary: a)
  case Nil
  show ?case by simp
next
  case (Cons x xs)
  have "a \<le> max a x" by simp
  also have "\<dots> \<le> foldl max (max a x) xs" by (rule Cons.IH)
  finally show ?case by simp
qed

lemma aggregate_range: "0 \<le> aggregate_level state \<and> aggregate_level state \<le> 3"
proof -
  define m where "m = foldl max 0
            [belt_level state, mid_bearing_level state, tail_bearing_level state,
             horsehead_level state, crank_left_level state, crank_right_level state,
             line_level state, electrical_level state, loadpos_level state]"
  have "0 \<le> m" unfolding m_def by (rule foldl_max_ge)
  moreover have "aggregate_level state = (if m > 3 then 3 else m)"
    unfolding m_def aggregate_level_def Let_def ..
  ultimately show ?thesis by simp
qed

lemma overall_range: "0 \<le> overall_alarm_level state \<and> overall_alarm_level state \<le> 3"
  using aggregate_range[of state] by (simp add: overall_alarm_level_def Let_def)

lemma clamp_overall [simp]: "clamp (overall_alarm_level state) 3 = overall_alarm_level state"
  using overall_range[of state] by (simp add: clamp_def)

lemma upd_latch_current [simp]: "g_101_current (update_43501_latched g clk) = g_101_current g"
  by (simp add: update_43501_latched_def Let_def split: option.splits)

lemma delayed_43501_other [simp]: "k \<noteq> 43501 \<Longrightarrow> delayed_43501 g clk l r k = r k"
  by (simp add: delayed_43501_def split: option.splits)

lemma stop_run_control_101:
  "r 101 = None \<Longrightarrow> fst (stop_run_control g clk ov r) 101 \<noteq> Some 81"
  by (simp add: stop_run_control_def Let_def split: option.splits)

lemma status_registers_101 [simp]: "status_registers state 101 = None"
  by (simp add: status_registers_def)

lemma status_registers_3501 [simp]: "status_registers state 3501 = None"
  by (simp add: status_registers_def)

lemma status_registers_3502 [simp]:
  "status_registers state 3502 = Some (overall_alarm_level state)"
  by (simp add: status_registers_def)

lemma build_short_circuit:
  "latched_43501 g cur clk = Some 1 \<Longrightarrow>
   build_rtu_registers g state cur clk =
     ([43501 \<mapsto> 1], update_43501_latched (sync_101 g cur clk) clk)"
  by (simp add: build_rtu_registers_def latched_43501_def Let_def)

lemma build_evaluated:
  "latched_43501 g cur clk \<noteq> Some 1 \<Longrightarrow> k \<noteq> 43501 \<Longrightarrow>
   fst (build_rtu_registers g state cur clk) k =
   fst (stop_run_control (update_43501_latched (sync_101 g cur clk) clk) clk
          (overall_alarm_level state) (status_registers state)) k"
  by (simp add: build_rtu_registers_def latched_43501_def Let_def split: prod.splits)

lemma stop_run_control_3502:
  "fst (stop_run_control g clk ov r) 3502 = r 3502"
  by (simp add: stop_run_control_def Let_def split: option.splits)

lemma stop_run_control_latch:
  "g_101_current g = Some 82 \<Longrightarrow> r 3502 = Some ov \<Longrightarrow> ov < 3 \<Longrightarrow>
   fst (stop_run_control g clk ov r) 3501 = Some 1 \<and> fst (stop_run_control g clk ov r) 101 = None"
  by (auto simp add: stop_run_control_def Let_def)

lemma stop_run_control_stopped_101:
  "g_101_current g = Some 82 \<Longrightarrow> r 101 = None \<Longrightarrow> fst (stop_run_control g clk ov r) 101 = None"
  by (simp add: stop_run_control_def Let_def split: option.splits)

lemma build_no_run_code: "fst (build_rtu_registers g state cur clk) 101 \<noteq> Some 81"
proof (cases "latched_43501 g cur clk = Some 1")
  case True
  then show ?thesis by (simp add: build_short_circuit)
next
  case False
  then show ?thesis by (simp add: build_evaluated stop_run_control_101)
qed

lemma run_cycles_no_run_code:
  "r \<in> set (fst (run_cycles g cs)) \<Longrightarrow> r 101 \<noteq> Some 81"
proof (induction cs arbitrary: g)
  case Nil
  then show ?case by simp
next
  case (Cons c cs)
  obtain state cur clk where c: "c = (state, cur, clk)" by (cases c) auto
  obtain r1 g1 where b: "build_rtu_registers g state cur clk = (r1, g1)" by force
  have r1: "r1 101 \<noteq> Some 81" using build_no_run_code[of g state cur clk] b by simp
  from Cons.prems c b have "r = r1 \<or> r \<in> set (fst (run_cycles g1 cs))"
    by (auto split: prod.splits)
  then show ?case using r1 Cons.IH by blast
qed

lemma foldl_max_mem: "(x::int) \<in> set xs \<Longrightarrow> x \<le> foldl max a xs"
proof (induction xs arbitrary: a)
  case Nil
  then show ?case by simp
next
  case (Cons y ys)
  show ?case
  proof (cases "x = y")
    case True
    have "x \<le> max a y" using True by simp
    also have "\<dots> \<le> foldl max (max a y) ys" by (rule foldl_max_ge)
    finally show ?thesis by simp
  next
    case False
    with Cons.prems have "x \<in> set ys" by simp
    then show ?thesis using Cons.IH by simp
  qed
qed

lemma aggregate_ge3:
  assumes "x \<in> set [belt_level state, mid_bearing_level state, tail_bearing_level state,
             horsehead_level state, crank_left_level state, crank_right_level state,
             line_level state, electrical_level state, loadpos_level state]" "3 \<le> x"
  shows "aggregate_level state = 3"
proof -
  define m where "m = foldl max 0
            [belt_level state, mid_bearing_level state, tail_bearing_level state,
             horsehead_level state, crank_left_level state, crank_right_level state,
             line_level state, electrical_level state, loadpos_level state]"
  have "x \<le> m" unfolding m_def using assms(1) by (rule foldl_max_mem)
  moreover have "aggregate_level state = (if m > 3 then 3 else m)"
    unfolding m_def aggregate_level_def Let_def ..
  ultimately show ?thesis using assms(2) by simp
qed

lemma any_sensor_reach_level_iff:
  "any_sensor_reach_level state lv \<longleftrightarrow>
     (crank_left_level state \<ge> lv \<or> crank_right_level state \<ge> lv \<or>
      tail_bearing_level state \<ge> lv \<or> mid_bearing_level state \<ge> lv \<or>
      horsehead_level state \<ge> lv \<or> belt_level state \<ge> lv)"
  by (simp add: any_sensor_reach_level_def)

lemma electrical_all_ok_iff:
  "electrical_all_ok state \<longleftrightarrow>
     (elec_phase_a_ok state \<and> elec_phase_b_ok state \<and> elec_phase_c_ok state)"
  by (auto simp add: electrical_all_ok_def electrical_missing_count_def)

lemma sensor_ge3_aggregate:
  "any_sensor_reach_level state 3 \<Longrightarrow> aggregate_level state = 3"
  unfolding any_sensor_reach_level_iff
  by (elim disjE) (erule aggregate_ge3[rotated], simp)+

lemma overall_alarm_level_char:
  "overall_alarm_level state =
     (if (crank_left_level state \<ge> 3 \<or> crank_right_level state \<ge> 3 \<or>
          tail_bearing_level state \<ge> 3 \<or> mid_bearing_level state \<ge> 3 \<or>
          horsehead_level state \<ge> 3 \<or> belt_level state \<ge> 3) \<and>
         (elec_phase_a_ok state \<and> elec_phase_b_ok state \<and> elec_phase_c_ok state) \<and>
         loadpos_ok state
      then 2 else aggregate_level state)"
proof (cases "any_sensor_reach_level state 3")
  case True
  then have "aggregate_level state = 3" by (rule sensor_ge3_aggregate)
  then show ?thesis using True
    by (simp add: overall_alarm_level_def Let_def electrical_all_ok_iff loadpos_normal_def
        any_sensor_reach_level_iff[symmetric])
next
  case False
  then show ?thesis
    by (simp add: overall_alarm_level_def Let_def any_sensor_reach_level_iff[symmetric])
qed

lemma build_3502:
  "(if latched_43501 g cur clk = Some 1
    then fst (build_rtu_registers g state cur clk) = [43501 \<mapsto> 1]
    else fst (build_rtu_registers g state cur clk) 3502 = Some (overall_alarm_level state))"
  by (simp add: build_short_circuit build_evaluated stop_run_control_3502)

lemmas engine_eval = build_rtu_registers_def sync_101_def update_43501_latched_def
  stop_run_control_def delayed_43501_def latched_43501_def remembered_101_def
  overall_alarm_level_def aggregate_level_def electrical_level_def loadpos_level_def
  electrical_missing_count_def electrical_all_ok_def loadpos_normal_def loadpos_abnormal_def
  any_sensor_reach_level_def clamp_def clock_at_def stopped_at_30_def globals_init_def
  SensorState_default_def belt_fault_def crank_left_alarm_def horsehead_alarm_def
  line_alarm_def Let_def

text \<open>
  Claim C1, as amended. In every run of evaluation cycles, from any globals, no returned
  write set maps register 101 to the run-code 81. In a cycle where the remembered value of
  register 101 is the stop-code 82 and the overall alarm level is below 3, the write set
  has no entry for 101; it maps 3501 to 1 unless the 43501 latch is 1 in that cycle, and
  then it is exactly \<open>{43501: 1}\<close>, without an entry for 3501.
\<close>

theorem stop_latch_no_auto_restart:
  "(\<forall>r \<in> set (fst (run_cycles g cs)). r 101 \<noteq> Some 81) \<and>
   (remembered_101 g cur clk = Some 82 \<and> overall_alarm_level state < 3 \<longrightarrow>
      fst (build_rtu_registers g state cur clk) 101 = None \<and>
      (if latched_43501 g cur clk = Some 1
       then fst (build_rtu_registers g state cur clk) = [43501 \<mapsto> 1]
       else fst (build_rtu_registers g state cur clk) 3501 = Some 1))"
proof (intro conjI ballI impI)
  fix r assume "r \<in> set (fst (run_cycles g cs))"
  then show "r 101 \<noteq> Some 81" by (rule run_cycles_no_run_code)
next
  assume a: "remembered_101 g cur clk = Some 82 \<and> overall_alarm_level state < 3"
  then have cur: "g_101_current (update_43501_latched (sync_101 g cur clk) clk) = Some 82"
    by (simp add: remembered_101_def)
  show "fst (build_rtu_registers g state cur clk) 101 = None"
  proof (cases "latched_43501 g cur clk = Some 1")
    case True
    then show ?thesis by (simp add: build_short_circuit)
  next
    case False
    then show ?thesis using cur by (simp add: build_evaluated stop_run_control_stopped_101)
  qed
  show "if latched_43501 g cur clk = Some 1
       then fst (build_rtu_registers g state cur clk) = [43501 \<mapsto> 1]
       else fst (build_rtu_registers g state cur clk) 3501 = Some 1"
  proof (cases "latched_43501 g cur clk = Some 1")
    case True
    then show ?thesis by (simp add: build_short_circuit)
  next
    case False
    then show ?thesis using cur a
      by (simp add: build_evaluated stop_run_control_latch)
  qed
qed

text \<open>
  Claim C1 as stated fails once the stop-code has been held for 60 seconds. The engine
  starts from the initial globals, sees the belt fault with register 101 at 81 at time 0
  and with register 101 at 82 at time 30; at time 100 the sensors are back to normal and
  register 101 still reads 82. The remembered value is 82 and the overall level is 0, yet
  the write set has no entry 3501 = 1: the latch short-circuit of lines 134-138 returns
  before the stop latch of line 242 is reached.
\<close>

theorem stop_latch_counterexample:
  "snd (run_cycles globals_init
          [(belt_fault, Some 81, clock_at 0), (belt_fault, Some 82, clock_at 30)]) = stopped_at_30
   \<and> remembered_101 stopped_at_30 (Some 82) (clock_at 100) = Some 82
   \<and> overall_alarm_level SensorState_default < 3
   \<and> fst (build_rtu_registers stopped_at_30 SensorState_default (Some 82) (clock_at 100)) 3501
       \<noteq> Some 1"
  by (simp add: engine_eval)

text \<open>The amended C1 at a concrete cycle: ten seconds after the stop-code was seen, with
  normal sensors, the engine writes 3501 = 1 and leaves 101 alone.\<close>

theorem stop_latch_no_auto_restart_witness:
  "hd (fst (run_cycles stopped_at_30 [(SensorState_default, Some 82, clock_at 40)]))
     \<in> set (fst (run_cycles stopped_at_30 [(SensorState_default, Some 82, clock_at 40)]))
   \<and> hd (fst (run_cycles stopped_at_30 [(SensorState_default, Some 82, clock_at 40)])) 101
       \<noteq> Some 81
   \<and> remembered_101 stopped_at_30 (Some 82) (clock_at 40) = Some 82
   \<and> overall_alarm_level SensorState_default < 3
   \<and> latched_43501 stopped_at_30 (Some 82) (clock_at 40) \<noteq> Some 1
   \<and> fst (build_rtu_registers stopped_at_30 SensorState_default (Some 82) (clock_at 40)) 101 = None
   \<and> fst (build_rtu_registers stopped_at_30 SensorState_default (Some 82) (clock_at 40)) 3501 = Some 1"
proof -
  have h1: "remembered_101 stopped_at_30 (Some 82) (clock_at 40) = Some 82"
    by (simp add: engine_eval)
  have h2: "overall_alarm_level SensorState_default < 3"
    by (simp add: engine_eval)
  have h3: "latched_43501 stopped_at_30 (Some 82) (clock_at 40) \<noteq> Some 1"
    by (simp add: engine_eval)
  have h4: "hd (fst (run_cycles stopped_at_30 [(SensorState_default, Some 82, clock_at 40)]))
     \<in> set (fst (run_cycles stopped_at_30 [(SensorState_default, Some 82, clock_at 40)]))"
    by (simp split: prod.splits)
  show ?thesis
    using h1 h2 h3 h4
      stop_latch_no_auto_restart [of stopped_at_30
        "[(SensorState_default, Some 82, clock_at 40)]" "Some 82" "clock_at 40" SensorState_default]
    by simp
qed

text \<open>
  Claim C2. Whenever the latch value of line 133 is 1, \<open>build_rtu_registers\<close> returns
  exactly the write set \<open>{43501: 1}\<close>, and the globals it leaves are those after steps 0
  and 1: neither the status registers nor the stop/run logic (which would touch the
  level-3 timer) is evaluated. The latch is 1 in particular when the remembered value of
  register 101 is 82 and its last change lies at least 60 seconds back.
\<close>

theorem latch_short_circuit:
  "(latched_43501 g cur clk = Some 1 \<longrightarrow>
      build_rtu_registers g state cur clk =
        ([43501 \<mapsto> 1], update_43501_latched (sync_101 g cur clk) clk))
   \<and> (remembered_101 g cur clk = Some 82
        \<and> g_101_changed_at (sync_101 g cur clk) = Some t0 \<and> t_latch clk - t0 \<ge> 60 \<longrightarrow>
      latched_43501 g cur clk = Some 1)"
proof (intro conjI impI)
  assume "latched_43501 g cur clk = Some 1"
  then show "build_rtu_registers g state cur clk =
        ([43501 \<mapsto> 1], update_43501_latched (sync_101 g cur clk) clk)"
    by (rule build_short_circuit)
next
  assume "remembered_101 g cur clk = Some 82
        \<and> g_101_changed_at (sync_101 g cur clk) = Some t0 \<and> t_latch clk - t0 \<ge> 60"
  then show "latched_43501 g cur clk = Some 1"
    by (simp add: latched_43501_def remembered_101_def update_43501_latched_def Let_def)
qed

text \<open>C2 at a concrete cycle: 60 seconds after the stop-code was seen, with the belt
  fault still present, the write set is \<open>{43501: 1}\<close>.\<close>

theorem latch_short_circuit_witness:
  "remembered_101 stopped_at_30 (Some 82) (clock_at 90) = Some 82
   \<and> g_101_changed_at (sync_101 stopped_at_30 (Some 82) (clock_at 90)) = Some 30
   \<and> t_latch (clock_at 90) - 30 \<ge> 60
   \<and> latched_43501 stopped_at_30 (Some 82) (clock_at 90) = Some 1
   \<and> fst (build_rtu_registers stopped_at_30 belt_fault (Some 82) (clock_at 90)) = [43501 \<mapsto> 1]"
proof -
  have h: "remembered_101 stopped_at_30 (Some 82) (clock_at 90) = Some 82
     \<and> g_101_changed_at (sync_101 stopped_at_30 (Some 82) (clock_at 90)) = Some 30
     \<and> t_latch (clock_at 90) - 30 \<ge> 60"
    by (simp add: engine_eval)
  show ?thesis
    using h latch_short_circuit [of stopped_at_30 "Some 82" "clock_at 90" belt_fault 30]
    by simp
qed

text \<open>
  Claim C3, as amended. When one of the six locations the downgrade tests is at level 3
  or more, all three phases are OK and the load position is normal, the overall alarm
  level is 2; register 3502 is written with 2 in every cycle in which the 43501 latch is
  not 1, and in a cycle in which it is 1 the write set is exactly \<open>{43501: 1}\<close>.
\<close>

theorem benign_downgrade:
  assumes "crank_left_level state \<ge> 3 \<or> crank_right_level state \<ge> 3 \<or>
           tail_bearing_level state \<ge> 3 \<or> mid_bearing_level state \<ge> 3 \<or>
           horsehead_level state \<ge> 3 \<or> belt_level state \<ge> 3"
    and "elec_phase_a_ok state \<and> elec_phase_b_ok state \<and> elec_phase_c_ok state"
    and "loadpos_ok state"
  shows "overall_alarm_level state = 2 \<and>
         (if latched_43501 g cur clk = Some 1
          then fst (build_rtu_registers g state cur clk) = [43501 \<mapsto> 1]
          else fst (build_rtu_registers g state cur clk) 3502 = Some 2)"
proof -
  have "overall_alarm_level state = 2"
    using assms by (simp add: overall_alarm_level_char)
  then show ?thesis using build_3502[of g cur clk state] by simp
qed

text \<open>
  Claim C3 as stated fails in a short-circuited cycle: with the left crank at level 3 and
  everything else in order, 70 seconds after the stop-code was seen, register 3502 is not
  written at all.
\<close>

theorem benign_downgrade_counterexample:
  "crank_left_level crank_left_alarm \<ge> 3
   \<and> elec_phase_a_ok crank_left_alarm \<and> elec_phase_b_ok crank_left_alarm
   \<and> elec_phase_c_ok crank_left_alarm \<and> loadpos_ok crank_left_alarm
   \<and> fst (build_rtu_registers stopped_at_30 crank_left_alarm (Some 82) (clock_at 100)) 3502
       \<noteq> Some 2"
  by (simp add: engine_eval)

text \<open>The amended C3 at the first cycle of an engine that sees the left crank at level 3.\<close>

theorem benign_downgrade_witness:
  "crank_left_level crank_left_alarm \<ge> 3
   \<and> elec_phase_a_ok crank_left_alarm \<and> elec_phase_b_ok crank_left_alarm
   \<and> elec_phase_c_ok crank_left_alarm \<and> loadpos_ok crank_left_alarm
   \<and> latched_43501 globals_init (Some 81) (clock_at 0) \<noteq> Some 1
   \<and> overall_alarm_level crank_left_alarm = 2
   \<and> fst (build_rtu_registers globals_init crank_left_alarm (Some 81) (clock_at 0)) 3502 = Some 2"
proof -
  have h1: "crank_left_level crank_left_alarm \<ge> 3 \<or> crank_right_level crank_left_alarm \<ge> 3 \<or>
           tail_bearing_level crank_left_alarm \<ge> 3 \<or> mid_bearing_level crank_left_alarm \<ge> 3 \<or>
           horsehead_level crank_left_alarm \<ge> 3 \<or> belt_level crank_left_alarm \<ge> 3"
    by (simp add: crank_left_alarm_def)
  have h2: "elec_phase_a_ok crank_left_alarm \<and> elec_phase_b_ok crank_left_alarm
     \<and> elec_phase_c_ok crank_left_alarm"
    by (simp add: crank_left_alarm_def SensorState_default_def)
  have h3: "loadpos_ok crank_left_alarm"
    by (simp add: crank_left_alarm_def SensorState_default_def)
  have h4: "latched_43501 globals_init (Some 81) (clock_at 0) \<noteq> Some 1"
    by (simp add: engine_eval)
  show ?thesis
    using h2 h3 h4 benign_downgrade [OF h1 h2 h3, of globals_init "Some 81" "clock_at 0"]
    by (simp add: crank_left_alarm_def)
qed

text \<open>
  Claim C9, as amended. The test of line 157 is on exactly the six locations crank-left,
  crank-right, tail-bearing, mid-bearing, horsehead and belt, and the overall level is 2
  exactly when one of them is at 3 or more with all phases OK and the load position
  normal; otherwise it is the clamped maximum. So a level 3 on belt or horsehead with
  clean electrical and load-position status gives overall level 2, and a level 3 on the
  line location alone, whatever the electrical and load-position status, gives overall
  level 3. Register 3502 carries that level in every cycle in which the 43501 latch is
  not 1; in a cycle in which it is 1 the write set is exactly \<open>{43501: 1}\<close>.
\<close>

theorem downgrade_sensor_set:
  "(any_sensor_reach_level state 3 \<longleftrightarrow>
      (crank_left_level state \<ge> 3 \<or> crank_right_level state \<ge> 3 \<or>
       tail_bearing_level state \<ge> 3 \<or> mid_bearing_level state \<ge> 3 \<or>
       horsehead_level state \<ge> 3 \<or> belt_level state \<ge> 3))
   \<and> overall_alarm_level state =
       (if (crank_left_level state \<ge> 3 \<or> crank_right_level state \<ge> 3 \<or>
            tail_bearing_level state \<ge> 3 \<or> mid_bearing_level state \<ge> 3 \<or>
            horsehead_level state \<ge> 3 \<or> belt_level state \<ge> 3) \<and>
           (elec_phase_a_ok state \<and> elec_phase_b_ok state \<and> elec_phase_c_ok state) \<and>
           loadpos_ok state
        then 2 else aggregate_level state)
   \<and> ((belt_level state \<ge> 3 \<or> horsehead_level state \<ge> 3) \<and>
        elec_phase_a_ok state \<and> elec_phase_b_ok state \<and> elec_phase_c_ok state \<and>
        loadpos_ok state \<longrightarrow>
        overall_alarm_level state = 2 \<and>
        (if latched_43501 g cur clk = Some 1
         then fst (build_rtu_registers g state cur clk) = [43501 \<mapsto> 1]
         else fst (build_rtu_registers g state cur clk) 3502 = Some 2))
   \<and> (line_level state \<ge> 3 \<and> crank_left_level state < 3 \<and> crank_right_level state < 3 \<and>
        tail_bearing_level state < 3 \<and> mid_bearing_level state < 3 \<and>
        horsehead_level state < 3 \<and> belt_level state < 3 \<longrightarrow>
        overall_alarm_level state = 3 \<and>
        (if latched_43501 g cur clk = Some 1
         then fst (build_rtu_registers g state cur clk) = [43501 \<mapsto> 1]
         else fst (build_rtu_registers g state cur clk) 3502 = Some 3))"
proof (intro conjI impI)
  show "any_sensor_reach_level state 3 \<longleftrightarrow>
      (crank_left_level state \<ge> 3 \<or> crank_right_level state \<ge> 3 \<or>
       tail_bearing_level state \<ge> 3 \<or> mid_bearing_level state \<ge> 3 \<or>
       horsehead_level state \<ge> 3 \<or> belt_level state \<ge> 3)"
    by (rule any_sensor_reach_level_iff)
next
  show "overall_alarm_level state =
       (if (crank_left_level state \<ge> 3 \<or> crank_right_level state \<ge> 3 \<or>
            tail_bearing_level state \<ge> 3 \<or> mid_bearing_level state \<ge> 3 \<or>
            horsehead_level state \<ge> 3 \<or> belt_level state \<ge> 3) \<and>
           (elec_phase_a_ok state \<and> elec_phase_b_ok state \<and> elec_phase_c_ok state) \<and>
           loadpos_ok state
        then 2 else aggregate_level state)"
    by (rule overall_alarm_level_char)
next
  assume a: "(belt_level state \<ge> 3 \<or> horsehead_level state \<ge> 3) \<and>
        elec_phase_a_ok state \<and> elec_phase_b_ok state \<and> elec_phase_c_ok state \<and>
        loadpos_ok state"
  then have ov: "overall_alarm_level state = 2"
    by (auto simp add: overall_alarm_level_char)
  show "overall_alarm_level state = 2" by (rule ov)
  show "if latched_43501 g cur clk = Some 1
         then fst (build_rtu_registers g state cur clk) = [43501 \<mapsto> 1]
         else fst (build_rtu_registers g state cur clk) 3502 = Some 2"
    using build_3502[of g cur clk state] ov by simp
next
  assume a: "line_level state \<ge> 3 \<and> crank_left_level state < 3 \<and> crank_right_level state < 3 \<and>
        tail_bearing_level state < 3 \<and> mid_bearing_level state < 3 \<and>
        horsehead_level state < 3 \<and> belt_level state < 3"
  then have "aggregate_level state = 3"
    by (intro aggregate_ge3[of "line_level state"]) simp_all
  with a have ov: "overall_alarm_level state = 3"
    by (simp add: overall_alarm_level_char)
  show "overall_alarm_level state = 3" by (rule ov)
  show "if latched_43501 g cur clk = Some 1
         then fst (build_rtu_registers g state cur clk) = [43501 \<mapsto> 1]
         else fst (build_rtu_registers g state cur clk) 3502 = Some 3"
    using build_3502[of g cur clk state] ov by simp
qed

text \<open>
  Claim C9 as stated fails in a short-circuited cycle: with the line location alone at
  level 3, 90 seconds after the stop-code was seen, register 3502 is not written, so it
  is not written with 3.
\<close>

theorem downgrade_sensor_set_counterexample:
  "line_level line_alarm \<ge> 3 \<and> crank_left_level line_alarm < 3
   \<and> crank_right_level line_alarm < 3 \<and> tail_bearing_level line_alarm < 3
   \<and> mid_bearing_level line_alarm < 3 \<and> horsehead_level line_alarm < 3
   \<and> belt_level line_alarm < 3
   \<and> fst (build_rtu_registers stopped_at_30 line_alarm (Some 82) (clock_at 120)) 3502
       \<noteq> Some 3"
  by (simp add: engine_eval)

text \<open>The amended C9 at the first cycle of an engine that sees the horsehead alone at
  level 3 (register 3502 = 2), and of one that sees the line alone at level 3 (register
  3502 = 3).\<close>

theorem downgrade_sensor_set_witness:
  "horsehead_level horsehead_alarm \<ge> 3
   \<and> elec_phase_a_ok horsehead_alarm \<and> elec_phase_b_ok horsehead_alarm
   \<and> elec_phase_c_ok horsehead_alarm \<and> loadpos_ok horsehead_alarm
   \<and> overall_alarm_level horsehead_alarm = 2
   \<and> fst (build_rtu_registers globals_init horsehead_alarm (Some 81) (clock_at 0)) 3502 = Some 2
   \<and> line_level line_alarm \<ge> 3 \<and> crank_left_level line_alarm < 3
   \<and> crank_right_level line_alarm < 3 \<and> tail_bearing_level line_alarm < 3
   \<and> mid_bearing_level line_alarm < 3 \<and> horsehead_level line_alarm < 3
   \<and> belt_level line_alarm < 3
   \<and> overall_alarm_level line_alarm = 3
   \<and> fst (build_rtu_registers globals_init line_alarm (Some 81) (clock_at 0)) 3502 = Some 3"
proof -
  have h1: "horsehead_level horsehead_alarm \<ge> 3
     \<and> elec_phase_a_ok horsehead_alarm \<and> elec_phase_b_ok horsehead_alarm
     \<and> elec_phase_c_ok horsehead_alarm \<and> loadpos_ok horsehead_alarm"
    by (simp add: horsehead_alarm_def SensorState_default_def)
  have h2: "line_level line_alarm \<ge> 3 \<and> crank_left_level line_alarm < 3
     \<and> crank_right_level line_alarm < 3 \<and> tail_bearing_level line_alarm < 3
     \<and> mid_bearing_level line_alarm < 3 \<and> horsehead_level line_alarm < 3
     \<and> belt_level line_alarm < 3"
    by (simp add: line_alarm_def SensorState_default_def)
  have h3: "latched_43501 globals_init (Some 81) (clock_at 0) \<noteq> Some 1"
    by (simp add: engine_eval)
  show ?thesis
    using h1 h2 h3
      downgrade_sensor_set [of horsehead_alarm globals_init "Some 81" "clock_at 0"]
      downgrade_sensor_set [of line_alarm globals_init "Some 81" "clock_at 0"]
    by simp
qed

section \<open>Properties of the serial transport\<close>

lemma crc16_range: "0 \<le> crc16 d \<and> crc16 d \<le> 0xFFFF"
  unfolding crc16_def by simp

lemma uint_byte_of_int: "uint (word_of_int x :: byte) = x mod 256"
  by (simp add: uint_word_of_int take_bit_eq_mod)

lemma unpack_pack:
  assumes "0 \<le> v" "v \<le> 0xFFFF"
  shows "unpack_H_le [word_of_int (v mod 256), word_of_int (v div 256)] = Inr v"
proof -
  have "v div 256 < 256" using assms by simp
  moreover have "0 \<le> v div 256" using assms by simp
  ultimately have "(v div 256) mod 256 = v div 256" by simp
  then show ?thesis by (simp add: unpack_H_le_def uint_byte_of_int)
qed

lemma encode_frame_Inr:
  assumes "0 \<le> unit_id" "unit_id < 256"
  shows "encode_frame unit_id pdu =
           Inr ([word_of_int unit_id] @ pdu @
                [word_of_int (crc16 ([word_of_int unit_id] @ pdu) mod 256),
                 word_of_int (crc16 ([word_of_int unit_id] @ pdu) div 256)])"
  using assms crc16_range[of "[word_of_int unit_id] @ pdu"]
  by (simp add: encode_frame_def bytes1_def pack_H_le_def Let_def)

lemma encode_frame_cases:
  "encode_frame unit_id pdu = Inr frame \<Longrightarrow> 0 \<le> unit_id \<and> unit_id < 256"
  by (simp add: encode_frame_def bytes1_def split: if_splits)

lemma send_and_recv_valid_id:
  assumes "0 \<le> unit_id" "unit_id < 256"
  shows "fst (send_and_recv unit_id pdu reply ser) =
         fst (recv_response unit_id (ser\<lparr>is_open := True, in_buf := reply\<rparr>))"
proof -
  have "\<And>s1 s2. in_buf s1 = in_buf s2 \<Longrightarrow>
          fst (recv_response unit_id s1) = fst (recv_response unit_id s2)"
    by (simp add: recv_response_def ser_read_def Let_def split: list.splits sum.splits)
  then show ?thesis
    using assms
    by (simp add: send_and_recv_def encode_frame_Inr send_frame_def reset_input_buffer_def
        ser_write_def ser_flush_def ser_receive_def ser_open_def Let_def)
qed

lemma recv_header:
  "fst (recv_response unit_id (ser\<lparr>in_buf := addr # func # byte_count # rest\<rparr>)) =
     (if uint addr \<noteq> unit_id then Inl (IOError AddressMismatch)
      else if func AND 0x80 \<noteq> 0 then Inl (IOError (ExceptionResponse func (take 1 rest)))
      else if length rest < unat byte_count + 2 then Inl TimeoutError
      else (case unpack_H_le (drop (unat byte_count) (take (unat byte_count + 2) rest)) of
              Inl e \<Rightarrow> Inl e
            | Inr crc_recv \<Rightarrow>
                if crc16 ([addr, func, byte_count] @ take (unat byte_count) rest) \<noteq> crc_recv
                then Inl (IOError CrcFailed)
                else Inr ([func, byte_count] @ take (unat byte_count) rest)))"
  by (simp add: recv_response_def ser_read_def Let_def min_def split: sum.splits)


lemmas transport_eval = send_and_recv_def encode_frame_def send_frame_def recv_response_def
  bytes1_def pack_H_le_def unpack_H_le_def ser_open_def reset_input_buffer_def ser_write_def
  ser_flush_def ser_receive_def ser_read_def crc16_def crc16_step_def crc16_shift_def
  idle_port_def opened_port_def read_one_pdu_def upt_rec Let_def


text \<open>
  Claim C4, as amended. Every frame the encoder produces is the slave id and the PDU
  followed by two bytes that unpack, little-endian, to the CRC of all bytes before them.
  A response that is received in full, carries the requested address and has no exception
  bit in its function code fails with \<open>ChecksumError\<close> when its two trailing bytes differ
  from the CRC recomputed over header and data, and is accepted otherwise; a response
  that the encoder itself framed is accepted. (A response with another address or with
  the exception bit is rejected before its CRC is looked at.)
\<close>

theorem crc_round_trip:
  "(encode_frame unit_id pdu = Inr frame \<longrightarrow>
      take (length frame - 2) frame = word_of_int unit_id # pdu
      \<and> unpack_H_le (drop (length frame - 2) frame) = Inr (crc16 (take (length frame - 2) frame)))
   \<and> (0 \<le> unit_id \<and> unit_id < 256 \<and> uint addr = unit_id \<and> func AND 0x80 = 0
        \<and> length data = unat byte_count \<longrightarrow>
      fst (send_and_recv unit_id pdu ([addr, func, byte_count] @ data @ [lo, hi] @ extra) ser) =
        (if uint lo + 256 * uint hi \<noteq> crc16 ([addr, func, byte_count] @ data)
         then Inl ChecksumError else Inr ([func, byte_count] @ data)))
   \<and> (encode_frame unit_id ([func, byte_count] @ data) = Inr response \<and> func AND 0x80 = 0
        \<and> length data = unat byte_count \<longrightarrow>
      fst (send_and_recv unit_id pdu response ser) = Inr ([func, byte_count] @ data))"
proof (intro conjI impI)
  assume e: "encode_frame unit_id pdu = Inr frame"
  then have r: "0 \<le> unit_id \<and> unit_id < 256" by (rule encode_frame_cases)
  then have f: "frame = (word_of_int unit_id # pdu) @
                [word_of_int (crc16 (word_of_int unit_id # pdu) mod 256),
                 word_of_int (crc16 (word_of_int unit_id # pdu) div 256)]"
    using e encode_frame_Inr[of unit_id pdu] by simp
  show "take (length frame - 2) frame = word_of_int unit_id # pdu"
    by (subst f, subst f) simp
  show "unpack_H_le (drop (length frame - 2) frame) = Inr (crc16 (take (length frame - 2) frame))"
    using crc16_range[of "word_of_int unit_id # pdu"]
    by (subst f, subst f, subst f, subst f) (simp add: unpack_pack)
next
  assume a: "0 \<le> unit_id \<and> unit_id < 256 \<and> uint addr = unit_id \<and> func AND 0x80 = 0
        \<and> length data = unat byte_count"
  then show "fst (send_and_recv unit_id pdu ([addr, func, byte_count] @ data @ [lo, hi] @ extra) ser) =
        (if uint lo + 256 * uint hi \<noteq> crc16 ([addr, func, byte_count] @ data)
         then Inl ChecksumError else Inr ([func, byte_count] @ data))"
    by (simp add: send_and_recv_valid_id recv_header unpack_H_le_def)
next
  assume a: "encode_frame unit_id ([func, byte_count] @ data) = Inr response \<and> func AND 0x80 = 0
        \<and> length data = unat byte_count"
  then have r: "0 \<le> unit_id" "unit_id < 256" using encode_frame_cases by blast+
  then have u: "uint (word_of_int unit_id :: byte) = unit_id"
    by (simp add: uint_byte_of_int)
  have f: "response = word_of_int unit_id # func # byte_count # data @
                [word_of_int (crc16 (word_of_int unit_id # func # byte_count # data) mod 256),
                 word_of_int (crc16 (word_of_int unit_id # func # byte_count # data) div 256)]"
    using a r encode_frame_Inr[of unit_id "[func, byte_count] @ data"] by simp
  show "fst (send_and_recv unit_id pdu response ser) = Inr ([func, byte_count] @ data)"
    using a r u crc16_range[of "word_of_int unit_id # func # byte_count # data"]
    by (subst f) (simp add: send_and_recv_valid_id recv_header unpack_pack)
qed


text \<open>
  Claim C4 as stated fails for responses that are rejected before the CRC check of lines
  91-95: an exception response of slave 1 with a corrupted CRC fails as a remote
  exception (line 85), and a response with a corrupted CRC from slave 2 fails on the
  address (line 82).
\<close>

theorem crc_round_trip_counterexample:
  "uint (0x00 :: byte) + 256 * uint (0x00 :: byte) \<noteq> crc16 [0x01, 0x83, 0x02]
   \<and> fst (send_and_recv 1 read_one_pdu [0x01, 0x83, 0x02, 0x00, 0x00] idle_port)
       = Inl (RemoteException 0x83 [0x00])
   \<and> uint (0x00 :: byte) + 256 * uint (0x00 :: byte) \<noteq> crc16 [0x02, 0x03, 0x02, 0x00, 0x05]
   \<and> fst (send_and_recv 1 read_one_pdu [0x02, 0x03, 0x02, 0x00, 0x05, 0x00, 0x00] idle_port)
       = Inl ProtocolMismatch"
  by (simp add: transport_eval)

text \<open>The amended C4 at concrete frames: the request \<open>01 03 00 00 00 01 84 0A\<close>, the
  response \<open>01 03 02 00 05 78 47\<close>, and the same response with its last byte changed.\<close>

theorem crc_round_trip_witness:
  "encode_frame 1 read_one_pdu = Inr [0x01, 0x03, 0x00, 0x00, 0x00, 0x01, 0x84, 0x0A]
   \<and> unpack_H_le [0x84, 0x0A] = Inr (crc16 [0x01, 0x03, 0x00, 0x00, 0x00, 0x01])
   \<and> uint (0x78 :: byte) + 256 * uint (0x46 :: byte) \<noteq> crc16 [0x01, 0x03, 0x02, 0x00, 0x05]
   \<and> fst (send_and_recv 1 read_one_pdu [0x01, 0x03, 0x02, 0x00, 0x05, 0x78, 0x46] idle_port)
       = Inl ChecksumError
   \<and> encode_frame 1 [0x03, 0x02, 0x00, 0x05] = Inr [0x01, 0x03, 0x02, 0x00, 0x05, 0x78, 0x47]
   \<and> fst (send_and_recv 1 read_one_pdu [0x01, 0x03, 0x02, 0x00, 0x05, 0x78, 0x47] idle_port)
       = Inr [0x03, 0x02, 0x00, 0x05]"
proof -
  have h1: "encode_frame 1 read_one_pdu = Inr [0x01, 0x03, 0x00, 0x00, 0x00, 0x01, 0x84, 0x0A]"
    by (simp add: transport_eval)
  have h2: "(0::int) \<le> 1 \<and> (1::int) < 256 \<and> uint (0x01 :: byte) = 1
      \<and> (0x03 :: byte) AND 0x80 = 0 \<and> length [0x00, 0x05 :: byte] = unat (0x02 :: byte)"
    by simp
  have h3: "uint (0x78 :: byte) + 256 * uint (0x46 :: byte) \<noteq> crc16 [0x01, 0x03, 0x02, 0x00, 0x05]"
    by (simp add: transport_eval)
  have h4: "encode_frame 1 [0x03, 0x02, 0x00, 0x05] = Inr [0x01, 0x03, 0x02, 0x00, 0x05, 0x78, 0x47]"
    by (simp add: transport_eval)
  show ?thesis
    using h1 h2 h3 h4
      crc_round_trip [of 1 read_one_pdu "[0x01, 0x03, 0x00, 0x00, 0x00, 0x01, 0x84, 0x0A]"
        "0x01" "0x03" "[0x00, 0x05]" "0x02" "0x78" "0x46" "[]" idle_port
        "[0x01, 0x03, 0x02, 0x00, 0x05, 0x78, 0x47]"]
    by (simp add: read_one_pdu_def)
qed

text \<open>
  Claim C5. For a slave id that fits a byte and a response whose three header bytes have
  arrived: if the address byte differs from the slave id the exchange fails with
  \<open>ProtocolMismatch\<close>, whatever the function code, the exception bit included; only with
  a matching address does a function code with the exception bit give
  \<open>RemoteException\<close>.
\<close>

theorem address_check_precedes_exception_check:
  assumes "0 \<le> unit_id" and "unit_id < 256"
  shows "(uint addr \<noteq> unit_id \<longrightarrow>
            fst (send_and_recv unit_id pdu (addr # func # byte_count # rest) ser)
              = Inl ProtocolMismatch)
       \<and> (uint addr = unit_id \<and> func AND 0x80 \<noteq> 0 \<longrightarrow>
            fst (send_and_recv unit_id pdu (addr # func # byte_count # rest) ser)
              = Inl (RemoteException func (take 1 rest)))"
  using assms by (simp add: send_and_recv_valid_id recv_header)

text \<open>C5 at the exception response \<open>83 02\<close> of slave 2, and of slave 1, to a request
  sent to slave 1.\<close>

theorem address_check_precedes_exception_check_witness:
  "(0::int) \<le> 1 \<and> (1::int) < 256
   \<and> uint (0x02 :: byte) \<noteq> 1 \<and> (0x83 :: byte) AND 0x80 \<noteq> 0
   \<and> fst (send_and_recv 1 read_one_pdu [0x02, 0x83, 0x02, 0xC0, 0xF1] idle_port)
       = Inl ProtocolMismatch
   \<and> uint (0x01 :: byte) = 1
   \<and> fst (send_and_recv 1 read_one_pdu [0x01, 0x83, 0x02, 0xC0, 0xF1] idle_port)
       = Inl (RemoteException 0x83 [0xC0])"
proof -
  have h1: "(0::int) \<le> 1" and h2: "(1::int) < 256" by simp_all
  have h3: "uint (0x02 :: byte) \<noteq> 1 \<and> (0x83 :: byte) AND 0x80 \<noteq> 0 \<and> uint (0x01 :: byte) = 1"
    by simp
  show ?thesis
    using h3
      address_check_precedes_exception_check [OF h1 h2, of "0x02" read_one_pdu "0x83" "0x02"
        "[0xC0, 0xF1]" idle_port]
      address_check_precedes_exception_check [OF h1 h2, of "0x01" read_one_pdu "0x83" "0x02"
        "[0xC0, 0xF1]" idle_port]
    by simp
qed








section \<open>Properties of the threshold classifier\<close>

lemma select_level_range: "select_level a \<in> {0, 1, 2, 3}"
  by (simp add: select_level_def Let_def)

lemma length_deque_append: "length (deque_append n d v) = min (Suc (length d)) (nat n)"
  by (simp add: deque_append_def Let_def)

lemma count_is_spike_count: "count_over_threshold a t = spike_count (history a) t"
  by (simp add: count_over_threshold_def spike_count_def)

lemma filter_123:
  "{k \<in> {1, 2, 3::nat}. P k} =
     (if P 1 then {1} else {}) \<union> (if P 2 then {2} else {}) \<union> (if P 3 then {3} else {})"
  by auto

lemma Max_index:
  "Max (insert 0 {k \<in> {1, 2, 3::nat}. P k}) =
     (if P 3 then 3 else if P 2 then 2 else if P 1 then 1 else 0)"
  unfolding filter_123 by (cases "P 1"; cases "P 2"; cases "P 3") simp_all

lemma select_level_spec: "select_level a = spec_level (config a) (history a)"
  unfolding spec_level_def Max_index
  by (simp add: select_level_def count_is_spike_count threshold_of_def Let_def)

lemma spike_count_mono: "t1 \<le> t2 \<Longrightarrow> spike_count buf t2 \<le> spike_count buf t1"
proof (induction buf)
  case Nil
  then show ?case by (simp add: spike_count_def)
next
  case (Cons x xs)
  then show ?case by (auto simp add: spike_count_def)
qed

lemma select_level_zero:
  assumes "level1 (config a) \<le> level2 (config a)" "level2 (config a) \<le> level3 (config a)"
    and "spike_count (history a) (level1 (config a)) < min_spike_count (config a)"
  shows "select_level a = 0"
proof -
  have c2: "spike_count (history a) (level2 (config a)) \<le> spike_count (history a) (level1 (config a))"
    using assms(1) by (rule spike_count_mono)
  have "spike_count (history a) (level3 (config a)) \<le> spike_count (history a) (level2 (config a))"
    using assms(2) by (rule spike_count_mono)
  with c2 assms(3) show ?thesis
    by (simp add: select_level_def count_is_spike_count Let_def)
qed

lemma is_stable_spec:
  assumes "int (length (baseline_buf a)) \<le> max 0 (baseline_window (config a))"
    and "is_stable a = Inr st"
  shows "st = spec_stable (config a) (baseline_buf a)"
proof (cases "int (length (baseline_buf a)) < baseline_window (config a)")
  case True
  then show ?thesis using assms(2)
    by (simp add: is_stable_def spec_stable_def Let_def)
next
  case False
  with assms(2) have ne: "length (baseline_buf a) \<noteq> 0"
    by (auto simp add: is_stable_def Let_def split: if_splits)
  with assms(1) False have full: "int (length (baseline_buf a)) = baseline_window (config a)"
    by (simp add: max_def split: if_splits)
  show ?thesis using assms(2) False ne full
    by (auto simp add: is_stable_def spec_stable_def mean_def Let_def split: if_splits)
qed

lemma update_baseline_Inr:
  assumes "update_baseline a v = Inr a1"
  shows "config a1 = config a \<and> history a1 = history a
         \<and> baseline_buf a1 = deque_append (baseline_window (config a)) (baseline_buf a) v"
  using assms by (auto simp add: update_baseline_def Let_def split: if_splits)

lemma ratio_guard_Inr:
  assumes "ratio_guard a v lvl = Inr l"
    and "int (length (baseline_buf a)) \<le> max 0 (baseline_window (config a))"
  shows "l = (if lvl > 0 \<and> (\<exists>b. baseline_est a = Some b
                \<and> spec_stable (config a) (baseline_buf a)
                \<and> (if b \<noteq> 0 then v / b else 0) < 1.2)
              then 0 else lvl)"
proof (cases "lvl > 0")
  case False
  then show ?thesis using assms(1) by (simp add: ratio_guard_def)
next
  case pos: True
  show ?thesis
  proof (cases "baseline_est a")
    case None
    then show ?thesis using assms(1) pos by (simp add: ratio_guard_def)
  next
    case (Some b)
    then obtain st where st: "is_stable a = Inr st"
      using assms(1) pos by (cases "is_stable a") (simp_all add: ratio_guard_def)
    have "st = spec_stable (config a) (baseline_buf a)"
      using assms(2) st by (rule is_stable_spec)
    then show ?thesis using assms(1) pos Some st
      by (simp add: ratio_guard_def Let_def split: if_splits)
  qed
qed

lemma update_Inr:
  assumes "update a v = Inr (r, a')"
  shows "config a' = config a"
    and "history a' = deque_append (window_size (config a)) (history a) v"
    and "baseline_buf a' = deque_append (baseline_window (config a)) (baseline_buf a) v"
    and "val r = v" and "baseline r = baseline_est a'"
    and "ratio_guard a' v (select_level a') = Inr (level r)"
proof -
  obtain a1 where a1: "update_baseline a v = Inr a1"
    using assms by (cases "update_baseline a v") (simp_all add: update_def)
  note b = update_baseline_Inr[OF a1]
  define a2 where "a2 = a1\<lparr>history := deque_append (window_size (config a1)) (history a1) v\<rparr>"
  obtain l where l: "ratio_guard a2 v (select_level a2) = Inr l"
    using assms a1 unfolding a2_def
    by (cases "ratio_guard (a1\<lparr>history := deque_append (window_size (config a1)) (history a1) v\<rparr>) v
           (select_level (a1\<lparr>history := deque_append (window_size (config a1)) (history a1) v\<rparr>))")
       (simp_all add: update_def Let_def)
  have res: "r = \<lparr>level = l, val = v, baseline = baseline_est a2\<rparr> \<and> a' = a2"
    using assms a1 l unfolding a2_def by (auto simp add: update_def Let_def)
  show "config a' = config a" using b res by (simp add: a2_def)
  show "history a' = deque_append (window_size (config a)) (history a) v"
    using b res by (simp add: a2_def)
  show "baseline_buf a' = deque_append (baseline_window (config a)) (baseline_buf a) v"
    using b res by (simp add: a2_def)
  show "val r = v" using res by simp
  show "baseline r = baseline_est a'" using res by simp
  show "ratio_guard a' v (select_level a') = Inr (level r)" using res l by simp
qed

lemma update_buf_bound:
  assumes "update a v = Inr (r, a')"
  shows "int (length (baseline_buf a')) \<le> max 0 (baseline_window (config a'))"
  using update_Inr(1,3)[OF assms] by (simp add: length_deque_append)


lemma ratio_guard_total:
  assumes "1 \<le> baseline_window (config a)"
  shows "ratio_guard a v lvl = Inr lvl \<or> ratio_guard a v lvl = Inr 0"
proof -
  have "int (length (baseline_buf a)) < baseline_window (config a) \<or> length (baseline_buf a) \<noteq> 0"
    using assms by auto
  then have "\<exists>st. is_stable a = Inr st"
    by (auto simp add: is_stable_def Let_def)
  then show ?thesis
    by (auto simp add: ratio_guard_def Let_def split: option.splits)
qed

lemma update_total_step:
  assumes "1 \<le> baseline_window (config a)"
  shows "\<exists>r a'. update a v = Inr (r, a') \<and> config a' = config a \<and> level r \<in> {0, 1, 2, 3}"
proof -
  define buf where "buf = deque_append (baseline_window (config a)) (baseline_buf a) v"
  have len: "length buf \<noteq> 0"
    using assms by (simp add: buf_def length_deque_append)
  have "\<exists>a1. update_baseline a v = Inr a1 \<and> config a1 = config a"
    using len unfolding buf_def by (auto simp add: update_baseline_def Let_def)
  then obtain a1 where a1: "update_baseline a v = Inr a1" and c1: "config a1 = config a"
    by blast
  define a2 where "a2 = a1\<lparr>history := deque_append (window_size (config a1)) (history a1) v\<rparr>"
  have c2: "config a2 = config a" using c1 by (simp add: a2_def)
  then have "1 \<le> baseline_window (config a2)" using assms by simp
  then have g: "ratio_guard a2 v (select_level a2) = Inr (select_level a2)
      \<or> ratio_guard a2 v (select_level a2) = Inr 0"
    by (rule ratio_guard_total)
  have u: "update a v =
      (case ratio_guard a2 v (select_level a2) of
         Inl e \<Rightarrow> Inl e
       | Inr lvl \<Rightarrow> Inr (\<lparr>level = lvl, val = v, baseline = baseline_est a2\<rparr>, a2))"
    unfolding a2_def by (simp add: update_def a1 Let_def)
  show ?thesis
    using g c2 select_level_range[of a2] unfolding u by auto
qed

lemma feed_total:
  assumes "1 \<le> baseline_window (config a)"
  shows "\<exists>a'. feed a vs = Inr a' \<and> config a' = config a"
  using assms
proof (induction vs arbitrary: a)
  case Nil
  then show ?case by simp
next
  case (Cons x xs)
  obtain r a1 where s: "update a x = Inr (r, a1)" "config a1 = config a"
    using update_total_step[OF Cons.prems, of x] by blast
  then have "1 \<le> baseline_window (config a1)" using Cons.prems by simp
  from Cons.IH[OF this] s show ?case by simp
qed

lemmas classifier_eval = update_def update_baseline_def is_stable_def ratio_guard_def
  select_level_def count_over_threshold_def deque_append_def ThresholdAnalyzer_init_def
  spike_count_def spec_stable_def mean_def demo_config_def fresh_analyzer_def
  after_one_sample_def after_two_samples_def after_three_samples_def descending_config_def
  descending_fresh_def descending_after_one_def descending_after_two_def
  zero_baseline_config_def zero_baseline_fresh_def Let_def

text \<open>
  Claim C6, as amended. After an update that returns, the detection buffer is the old one
  with the new sample appended under the window bound, and the level selected from it
  (the level before the spike-ratio guard) is the highest index in 1..3 whose threshold
  is reached by at least \<open>min_spike_count\<close> values of the buffer, or 0 if there is none;
  the reported level is that level or 0. When the thresholds are in ascending order, a
  buffer with fewer than \<open>min_spike_count\<close> values at or above \<open>level1\<close> gives the level 0,
  selected and reported.
\<close>

theorem level_selection:
  assumes "update a v = Inr (r, a')"
  shows "history a' = deque_append (window_size (config a)) (history a) v
       \<and> select_level a' = spec_level (config a') (history a')
       \<and> ratio_guard a' v (select_level a') = Inr (level r)
       \<and> (level r = select_level a' \<or> level r = 0)
       \<and> (level1 (config a') \<le> level2 (config a') \<and> level2 (config a') \<le> level3 (config a')
            \<and> spike_count (history a') (level1 (config a')) < min_spike_count (config a')
          \<longrightarrow> select_level a' = 0 \<and> level r = 0)"
proof -
  note u = update_Inr[OF assms]
  have g: "level r = (if select_level a' > 0 \<and> (\<exists>b. baseline_est a' = Some b
                \<and> spec_stable (config a') (baseline_buf a')
                \<and> (if b \<noteq> 0 then v / b else 0) < 1.2)
              then 0 else select_level a')"
    using u(6) update_buf_bound[OF assms] by (rule ratio_guard_Inr)
  have d: "level r = select_level a' \<or> level r = 0"
    using g by (simp split: if_splits)
  have z: "level1 (config a') \<le> level2 (config a') \<and> level2 (config a') \<le> level3 (config a')
            \<and> spike_count (history a') (level1 (config a')) < min_spike_count (config a')
          \<longrightarrow> select_level a' = 0 \<and> level r = 0"
    using select_level_zero[of a'] d by auto
  show ?thesis using u(2) u(6) select_level_spec[of a'] d z by blast
qed

text \<open>
  Claim C6 as stated fails when the thresholds are not ascending, which \<open>ThresholdConfig\<close>
  does not rule out: with the thresholds 30, 20 and 10 and two samples of 12, no sample
  reaches \<open>level1\<close>, yet both reach \<open>level3\<close> and the reported level is 3.
\<close>

theorem level_selection_counterexample:
  "ThresholdAnalyzer_init descending_config = Inr descending_fresh
   \<and> update descending_fresh 12
       = Inr (\<lparr>level = 0, val = 12, baseline = None\<rparr>, descending_after_one)
   \<and> update descending_after_one 12
       = Inr (\<lparr>level = 3, val = 12, baseline = None\<rparr>, descending_after_two)
   \<and> spike_count (history descending_after_two) (level1 descending_config)
       < min_spike_count descending_config"
  by (simp add: classifier_eval)

text \<open>The amended C6 at an isolated spike: the buffer holds the sample 12, above \<open>level1\<close>, and then
  the sample 5; one spike is fewer than the two required, and the level is 0.\<close>

theorem level_selection_witness:
  "update after_one_sample 5 =
     Inr (\<lparr>level = 0, val = 5, baseline = None\<rparr>,
          \<lparr>config = demo_config, history = [12, 5], baseline_buf = [12, 5], baseline_est = None\<rparr>)
   \<and> level1 demo_config \<le> level2 demo_config \<and> level2 demo_config \<le> level3 demo_config
   \<and> spike_count [12, 5] (level1 demo_config) < min_spike_count demo_config
   \<and> spec_level demo_config [12, 5] = 0"
proof -
  have h: "update after_one_sample 5 =
     Inr (\<lparr>level = 0, val = 5, baseline = None\<rparr>,
          \<lparr>config = demo_config, history = [12, 5], baseline_buf = [12, 5], baseline_est = None\<rparr>)"
    by (simp add: classifier_eval)
  have h2: "level1 demo_config \<le> level2 demo_config \<and> level2 demo_config \<le> level3 demo_config
     \<and> spike_count [12, 5] (level1 demo_config) < min_spike_count demo_config"
    by (simp add: classifier_eval)
  show ?thesis using h2 level_selection [OF h] by (simp add: h classifier_eval)
qed

text \<open>
  Claim C7. After an update that returns and has selected a non-zero level, the reported
  level is 0 exactly when the baseline is defined, the baseline window is stable (full,
  with a non-zero mean and a spread of at most \<open>baseline_tol\<close> times the mean) and the
  ratio of the sample to the baseline, taken as 0 for a baseline of 0, is below 1.2; when
  the baseline is undefined or the window is not stable, the reported level is the
  selected one.
\<close>

theorem spike_ratio_guard:
  assumes "update a v = Inr (r, a')" and "select_level a' \<noteq> 0"
  shows "(level r = 0 \<longleftrightarrow>
            (\<exists>b. baseline_est a' = Some b \<and> spec_stable (config a') (baseline_buf a')
                 \<and> (if b \<noteq> 0 then v / b else 0) < 1.2))
       \<and> (baseline_est a' = None \<or> \<not> spec_stable (config a') (baseline_buf a')
            \<longrightarrow> level r = select_level a')"
proof -
  note u = update_Inr[OF assms(1)]
  have pos: "select_level a' > 0"
    using assms(2) select_level_range[of a'] by auto
  have g: "level r = (if select_level a' > 0 \<and> (\<exists>b. baseline_est a' = Some b
                \<and> spec_stable (config a') (baseline_buf a')
                \<and> (if b \<noteq> 0 then v / b else 0) < 1.2)
              then 0 else select_level a')"
    using u(6) update_buf_bound[OF assms(1)] by (rule ratio_guard_Inr)
  show ?thesis using g pos assms(2) by auto
qed

text \<open>C7 at a third sample of 12 on a plateau of 12 (level 1 selected, baseline 12, ratio
  1: reported 0) and at a second sample of 12 (level 1 selected, no baseline yet:
  reported 1).\<close>

theorem spike_ratio_guard_witness:
  "update after_two_samples 12 =
     Inr (\<lparr>level = 0, val = 12, baseline = Some 12\<rparr>, after_three_samples)
   \<and> select_level after_three_samples \<noteq> 0
   \<and> baseline_est after_three_samples = Some 12
   \<and> spec_stable (config after_three_samples) (baseline_buf after_three_samples)
   \<and> (12::real) / 12 < 1.2
   \<and> update after_one_sample 12 =
     Inr (\<lparr>level = 1, val = 12, baseline = None\<rparr>, after_two_samples)
   \<and> select_level after_two_samples \<noteq> 0
   \<and> baseline_est after_two_samples = None"
proof -
  have h1: "update after_two_samples 12 =
     Inr (\<lparr>level = 0, val = 12, baseline = Some 12\<rparr>, after_three_samples)"
    by (simp add: classifier_eval)
  have h2: "select_level after_three_samples \<noteq> 0"
    by (simp add: classifier_eval)
  have h3: "update after_one_sample 12 =
     Inr (\<lparr>level = 1, val = 12, baseline = None\<rparr>, after_two_samples)"
    by (simp add: classifier_eval)
  have h4: "select_level after_two_samples \<noteq> 0"
    by (simp add: classifier_eval)
  have h5: "baseline_est after_three_samples = Some 12 \<and> baseline_est after_two_samples = None"
    by (simp add: classifier_eval)
  show ?thesis
    using h1 h2 h3 h4 h5 spike_ratio_guard [OF h1 h2] spike_ratio_guard [OF h3 h4]
    by simp
qed

text \<open>
  Claim C10, as amended. For a configuration whose baseline window holds at least one
  sample: the analyzer can be created whenever the detection window is not negative, and
  from every analyzer the constructor returns, every stream of samples leaves an analyzer
  and raises nothing, and on each such analyzer \<open>update\<close> returns, for every sample, a
  result whose level is 0, 1, 2 or 3.
\<close>

theorem update_total:
  assumes "1 \<le> baseline_window cfg"
  shows "(0 \<le> window_size cfg \<longrightarrow> (\<exists>a0. ThresholdAnalyzer_init cfg = Inr a0))
       \<and> (ThresholdAnalyzer_init cfg = Inr a0 \<longrightarrow>
            (\<exists>a. feed a0 vs = Inr a \<and>
               (\<exists>r a'. update a v = Inr (r, a') \<and> level r \<in> {0, 1, 2, 3})))"
proof (intro conjI impI)
  assume "0 \<le> window_size cfg"
  then show "\<exists>a0. ThresholdAnalyzer_init cfg = Inr a0"
    using assms by (simp add: ThresholdAnalyzer_init_def)
next
  assume "ThresholdAnalyzer_init cfg = Inr a0"
  then have c: "config a0 = cfg"
    by (auto simp add: ThresholdAnalyzer_init_def split: if_splits)
  then have "1 \<le> baseline_window (config a0)" using assms by simp
  then obtain a where a: "feed a0 vs = Inr a" "config a = config a0"
    using feed_total by blast
  then have "1 \<le> baseline_window (config a)" using assms c by simp
  then obtain r a' where "update a v = Inr (r, a')" "level r \<in> {0, 1, 2, 3}"
    using update_total_step by blast
  with a show "\<exists>a. feed a0 vs = Inr a \<and>
               (\<exists>r a'. update a v = Inr (r, a') \<and> level r \<in> {0, 1, 2, 3})"
    by blast
qed

text \<open>
  Claim C10 as stated fails for a baseline window of length 0, which the constructor
  accepts (\<^verbatim>\<open>deque(maxlen=0)\<close>): the buffer stays empty, its length equals the window
  length, and the mean of line 70 divides by zero in the first update.
\<close>

theorem update_total_counterexample:
  "ThresholdAnalyzer_init zero_baseline_config = Inr zero_baseline_fresh
   \<and> update zero_baseline_fresh 12 = Inl ZeroDivisionError"
  by (simp add: classifier_eval)

text \<open>The amended C10 at the demo configuration: the analyzer after two samples of 12,
  and a third sample of 25.\<close>

theorem update_total_witness:
  "1 \<le> baseline_window demo_config \<and> 0 \<le> window_size demo_config
   \<and> ThresholdAnalyzer_init demo_config = Inr fresh_analyzer
   \<and> feed fresh_analyzer [12, 12] = Inr after_two_samples
   \<and> (\<exists>r a'. update after_two_samples 25 = Inr (r, a') \<and> level r \<in> {0, 1, 2, 3})"
proof -
  have h1: "1 \<le> baseline_window demo_config" and h2: "0 \<le> window_size demo_config"
    by (simp_all add: demo_config_def)
  have h3: "ThresholdAnalyzer_init demo_config = Inr fresh_analyzer"
    by (simp add: classifier_eval)
  have h4: "feed fresh_analyzer [12, 12] = Inr after_two_samples"
    by (simp add: classifier_eval)
  show ?thesis
    using h1 h2 h3 h4
      update_total [OF h1, where ?a0.0 = fresh_analyzer and vs = "[12, 12]" and v = 25]
    by simp
qed

end
